theory Spec2Isabelle
  imports Main "HOL-Library.AList"
begin

section \<open>Values shared with the plugins\<close>

text \<open>
  Option objects of rules and fixes are plain JSON values. The engine never looks inside
  them; the only thing it asks of one is whether it is truthy (\<^verbatim>\<open>configray[1] || {}\<close>).
  A field that may be \<^verbatim>\<open>undefined\<close> in the JavaScript is an \<open>option\<close> here, with
  \<open>None\<close> for \<^verbatim>\<open>undefined\<close>.
\<close>

datatype json =
    JNull
  | JBool bool
  | JNum int
  | JStr string
  | JArr "json list"
  | JObj "(string \<times> json) list"

fun truthy :: "json \<Rightarrow> bool" where
  "truthy JNull = False"
| "truthy (JBool b) = b"
| "truthy (JNum n) = (n \<noteq> 0)"
| "truthy (JStr s) = (s \<noteq> [])"
| "truthy (JArr xs) = True"
| "truthy (JObj kvs) = True"

text \<open>
  A target of a plugin Result: \<^verbatim>\<open>{ path?, passed }\<close>. The Result itself is
  \<^verbatim>\<open>new Result(message, targets, passed)\<close>.
\<close>

record target =
  path :: "string option"
  tpassed :: bool

record Result =
  message :: string
  targets :: "target list"
  passed :: bool

text \<open>The double quote character, which the ignore messages contain.\<close>

definition dq :: char where
  "dq = CHR 0x22"

text \<open>
  \<^verbatim>\<open>`${x}`\<close> in a template literal, for a string \<open>x\<close> that may be undefined (a path,
  a fix type).
\<close>

fun interpolate :: "string option \<Rightarrow> string" where
  "interpolate None = ''undefined''"
| "interpolate (Some p) = p"

text \<open>\<^verbatim>\<open>Array.prototype.join\<close> on an array of strings.\<close>

fun join :: "string \<Rightarrow> string list \<Rightarrow> string" where
  "join sep [] = []"
| "join sep [x] = x"
| "join sep (x # y # ys) = x @ sep @ join sep (y # ys)"

text \<open>
  \<^verbatim>\<open>String.prototype.split\<close> with a one-character separator: the pieces between the
  separators, so the empty string gives one empty piece.
\<close>

fun split :: "char \<Rightarrow> string \<Rightarrow> string list" where
  "split c [] = [[]]"
| "split c (x # xs) =
     (if x = c then [] # split c xs
      else (case split c xs of
              [] \<Rightarrow> [[x]]
            | w # ws \<Rightarrow> (x # w) # ws))"

section \<open>Rule descriptors and per-rule outcomes\<close>

text \<open>
  Modelled from the spec: the class \<^verbatim>\<open>RuleInfo\<close> (lib/ruleinfo.js) is not among the
  sources. The spec gives the canonical descriptor
  \<^verbatim>\<open>{ name, level, where, ruleType, ruleConfig, fixType?, fixConfig?, policyInfo?, policyUrl? }\<close>
  and says that the optional fields are omitted when nothing is declared. The field
  \<^verbatim>\<open>where\<close> is called \<open>rwhere\<close> here.
\<close>

record RuleInfo =
  name :: string
  level :: string
  rwhere :: "string list"
  ruleType :: string
  ruleConfig :: "json option"
  fixType :: "string option"
  fixConfig :: "json option"
  policyInfo :: "string option"
  policyUrl :: "string option"

text \<open>
  Modelled from the spec: the constructor \<^verbatim>\<open>new RuleInfo(...)\<close> stores its nine
  arguments; an argument that is not passed is \<^verbatim>\<open>undefined\<close>.
\<close>

definition new_RuleInfo ::
  "string \<Rightarrow> string \<Rightarrow> string list \<Rightarrow> string \<Rightarrow> json option \<Rightarrow> string option \<Rightarrow>
   json option \<Rightarrow> string option \<Rightarrow> string option \<Rightarrow> RuleInfo" where
  "new_RuleInfo n l w t c ft fc pinfo purl =
     \<lparr>name = n, level = l, rwhere = w, ruleType = t, ruleConfig = c,
      fixType = ft, fixConfig = fc, policyInfo = pinfo, policyUrl = purl\<rparr>"

text \<open>
  Modelled from the spec: the class \<^verbatim>\<open>FormatResult\<close> (lib/formatresult.js) is not
  among the sources. The spec describes it as a tagged union over ERROR, IGNORED,
  LINT_ONLY and LINT_AND_FIX, each carrying the originating descriptor and an error
  message, an ignore reason, the rule's Result, or the rule's and the fix's Result.
  The constructors bear the names of the factory functions the engine calls.
\<close>

datatype Status = ERROR | IGNORED | LINT_ONLY | LINT_AND_FIX

datatype FormatResult =
    CreateError RuleInfo string
  | CreateIgnored RuleInfo string
  | CreateLintOnly RuleInfo Result
  | CreateLintAndFix RuleInfo Result Result

fun status :: "FormatResult \<Rightarrow> Status" where
  "status (CreateError r m) = ERROR"
| "status (CreateIgnored r m) = IGNORED"
| "status (CreateLintOnly r res) = LINT_ONLY"
| "status (CreateLintAndFix r res fres) = LINT_AND_FIX"

fun ruleInfo :: "FormatResult \<Rightarrow> RuleInfo" where
  "ruleInfo (CreateError r m) = r"
| "ruleInfo (CreateIgnored r m) = r"
| "ruleInfo (CreateLintOnly r res) = r"
| "ruleInfo (CreateLintAndFix r res fres) = r"

fun runMessage :: "FormatResult \<Rightarrow> string option" where
  "runMessage (CreateError r m) = Some m"
| "runMessage (CreateIgnored r m) = Some m"
| "runMessage (CreateLintOnly r res) = None"
| "runMessage (CreateLintAndFix r res fres) = None"

fun lintResult :: "FormatResult \<Rightarrow> Result option" where
  "lintResult (CreateError r m) = None"
| "lintResult (CreateIgnored r m) = None"
| "lintResult (CreateLintOnly r res) = Some res"
| "lintResult (CreateLintAndFix r res fres) = Some res"

fun fixResult :: "FormatResult \<Rightarrow> Result option" where
  "fixResult (CreateError r m) = None"
| "fixResult (CreateIgnored r m) = None"
| "fixResult (CreateLintOnly r res) = None"
| "fixResult (CreateLintAndFix r res fres) = Some fres"

section \<open>Plugins\<close>

text \<open>
  The registries \<^verbatim>\<open>Rules\<close>, \<^verbatim>\<open>Fixes\<close> and \<^verbatim>\<open>Axioms\<close> and the plugins
  themselves are not among the sources, so \<^verbatim>\<open>loadRules()\<close>, \<^verbatim>\<open>loadFixes()\<close> and
  \<^verbatim>\<open>loadAxioms()\<close> are parameters: maps from a plugin's name to the plugin, where
  \<^verbatim>\<open>hasOwnProperty\<close> is \<open>\<noteq> None\<close>. A plugin is a function of the arguments the
  engine passes it; it returns its Result (\<open>Inr\<close>) or throws, and then \<open>Inl\<close> holds the
  \<^verbatim>\<open>message\<close> of what it threw. Loading the plugin (\<^verbatim>\<open>allRules[type]()\<close>) and
  running it happen in the same \<^verbatim>\<open>try\<close>, and are one step here. The file system is
  an opaque handle of type \<open>'fs\<close>.
\<close>

type_synonym 'fs rule_plugin = "'fs \<Rightarrow> json option \<Rightarrow> string + Result"
type_synonym 'fs fix_plugin = "'fs \<Rightarrow> json option \<Rightarrow> string list \<Rightarrow> bool \<Rightarrow> string + Result"
type_synonym 'fs axiom_plugin = "'fs \<Rightarrow> string + Result"

text \<open>What the engine invoked, with the arguments it passed.\<close>

datatype 'fs call =
    RuleCall string 'fs "json option"
  | FixCall string 'fs "json option" "string list" bool

section \<open>runRuleset\<close>

text \<open>
  The second argument of \<^verbatim>\<open>runRuleset\<close> is
  \<^verbatim>\<open>Object.<string, Result> | boolean\<close>. An object is given by its entries, in the
  order of \<^verbatim>\<open>Object.entries\<close>.
\<close>

datatype targets_arg =
    TBool bool
  | TMap "(string \<times> Result) list"

text \<open>\<^verbatim>\<open>typeof targets !== 'boolean'\<close>\<close>

fun not_boolean :: "targets_arg \<Rightarrow> bool" where
  "not_boolean (TBool b) = False"
| "not_boolean (TMap m) = True"

text \<open>
  Lines 289 to 296: the flat array of axiom string identifiers.
  \<^verbatim>\<open>
  let targetArray = []
  if (typeof targets !== 'boolean') {
    targetArray = Object.entries(targets)
      .filter(([axiomId, res]) => res.passed)
      .map(([axiomId, res]) => [axiomId, res.targets.map(t => t.path)])
      .map(([axiomId, paths]) => [`${axiomId}=*`].concat(paths.map(p => `${axiomId}=${p}`)))
      .reduce((a, c) => a.concat(c), [])
  }
  \<close>
\<close>

fun targetArray :: "targets_arg \<Rightarrow> string list" where
  "targetArray (TBool b) = []"
| "targetArray (TMap m) =
     foldl (\<lambda>a c. a @ c) []
       (map (\<lambda>(axiomId, paths). [axiomId @ ''=*''] @ map (\<lambda>p. axiomId @ ''='' @ interpolate p) paths)
         (map (\<lambda>(axiomId, res). (axiomId, map path (targets res)))
           (filter (\<lambda>(axiomId, res). passed res) m)))"

text \<open>
  Line 308: \<^verbatim>\<open>r.where.filter(check => !targetArray.find(tar => check === tar))\<close>.
  \<^verbatim>\<open>find\<close> gives the element found, a string, or \<^verbatim>\<open>undefined\<close>; the negation holds
  for \<^verbatim>\<open>undefined\<close> and for the empty string.
\<close>

definition ignoreReasons :: "string list \<Rightarrow> RuleInfo \<Rightarrow> string list" where
  "ignoreReasons tarr r =
     filter (\<lambda>check. case find (\<lambda>tar. check = tar) tarr of
                        None \<Rightarrow> True
                      | Some found \<Rightarrow> found = [])
       (rwhere r)"

text \<open>
  Line 324: the paths handed to the fix.
  \<^verbatim>\<open>!result.passed ? result.targets.filter(t => !t.passed && t.path).map(t => t.path) : []\<close>.
  A path is truthy when it is defined and not the empty string, so every target that
  is kept has a path.
\<close>

definition fixTargets :: "Result \<Rightarrow> string list" where
  "fixTargets result =
     (if \<not> passed result
      then map (\<lambda>t. the (path t))
             (filter (\<lambda>t. \<not> tpassed t \<and> (case path t of None \<Rightarrow> False | Some p \<Rightarrow> p \<noteq> []))
               (targets result))
      else [])"

text \<open>\<^verbatim>\<open>!r.fixType\<close>: the fix type is undefined or the empty string.\<close>

fun no_fixType :: "string option \<Rightarrow> bool" where
  "no_fixType None = True"
| "no_fixType (Some t) = (t = [])"

text \<open>
  Lines 303 to 340: what \<^verbatim>\<open>runRuleset\<close> does for one rule \<open>r\<close>. The result is the
  FormatResult of the rule together with the plugins invoked for it, in order.
\<close>

definition runRule ::
  "(string \<rightharpoonup> 'fs rule_plugin) \<Rightarrow> (string \<rightharpoonup> 'fs fix_plugin) \<Rightarrow> targets_arg \<Rightarrow> 'fs \<Rightarrow> bool \<Rightarrow>
   RuleInfo \<Rightarrow> FormatResult \<times> 'fs call list" where
  "runRule allRules allFixes tgts fileSystem dryRun r =
     (if level r = ''off''
      then (CreateIgnored r (''ignored because level is '' @ [dq] @ ''off'' @ [dq]), [])
      else if not_boolean tgts \<and> ignoreReasons (targetArray tgts) r \<noteq> []
      then (CreateIgnored r
              (''ignored due to unsatisfied condition(s): '' @ [dq] @
               join ([dq] @ '', '' @ [dq]) (ignoreReasons (targetArray tgts) r) @ [dq]), [])
      else (case allRules (ruleType r) of
              None \<Rightarrow> (CreateError r (ruleType r @ '' is not a valid rule''), [])
            | Some ruleFunc \<Rightarrow>
               (case ruleFunc fileSystem (ruleConfig r) of
                  Inl e \<Rightarrow>
                    (CreateError r (ruleType r @ '' threw an error: '' @ e),
                     [RuleCall (ruleType r) fileSystem (ruleConfig r)])
                | Inr result \<Rightarrow>
                    (if no_fixType (fixType r) \<or> passed result
                     then (CreateLintOnly r result,
                           [RuleCall (ruleType r) fileSystem (ruleConfig r)])
                     else (case allFixes (interpolate (fixType r)) of
                             None \<Rightarrow>
                               (CreateError r (interpolate (fixType r) @ '' is not a valid fix''),
                                [RuleCall (ruleType r) fileSystem (ruleConfig r)])
                           | Some fixFunc \<Rightarrow>
                              (case fixFunc fileSystem (fixConfig r) (fixTargets result) dryRun of
                                 Inl e \<Rightarrow>
                                   (CreateError r (interpolate (fixType r) @ '' threw an error: '' @ e),
                                    [RuleCall (ruleType r) fileSystem (ruleConfig r),
                                     FixCall (interpolate (fixType r)) fileSystem (fixConfig r)
                                       (fixTargets result) dryRun])
                               | Inr fixresult \<Rightarrow>
                                   (CreateLintAndFix r result fixresult,
                                    [RuleCall (ruleType r) fileSystem (ruleConfig r),
                                     FixCall (interpolate (fixType r)) fileSystem (fixConfig r)
                                       (fixTargets result) dryRun])))))))"

text \<open>
  \<^verbatim>\<open>ruleset.map(async r => ...)\<close> under \<^verbatim>\<open>Promise.all\<close>: one FormatResult per rule,
  in the order of the rules. No promise of the batch rejects, since every fault of a
  plugin is caught inside the rule's own function.
\<close>

definition runRuleset ::
  "(string \<rightharpoonup> 'fs rule_plugin) \<Rightarrow> (string \<rightharpoonup> 'fs fix_plugin) \<Rightarrow> RuleInfo list \<Rightarrow> targets_arg \<Rightarrow>
   'fs \<Rightarrow> bool \<Rightarrow> FormatResult list" where
  "runRuleset allRules allFixes ruleset tgts fileSystem dryRun =
     map (\<lambda>r. fst (runRule allRules allFixes tgts fileSystem dryRun r)) ruleset"

text \<open>The plugins invoked during one \<^verbatim>\<open>runRuleset\<close>, rule by rule.\<close>

definition runRuleset_calls ::
  "(string \<rightharpoonup> 'fs rule_plugin) \<Rightarrow> (string \<rightharpoonup> 'fs fix_plugin) \<Rightarrow> RuleInfo list \<Rightarrow> targets_arg \<Rightarrow>
   'fs \<Rightarrow> bool \<Rightarrow> 'fs call list list" where
  "runRuleset_calls allRules allFixes ruleset tgts fileSystem dryRun =
     map (\<lambda>r. snd (runRule allRules allFixes tgts fileSystem dryRun r)) ruleset"

section \<open>The verdict of lint\<close>

text \<open>
  Lines 195 to 197 of \<^verbatim>\<open>lint\<close>:
  \<^verbatim>\<open>
  const passed = !result.find(r =>
    r.status === FormatResult.ERROR ||
      (r.status !== FormatResult.IGNORED && r.ruleInfo.level === 'error' && !r.lintResult.passed))
  \<close>
  \<^verbatim>\<open>r.lintResult\<close> is read only when the status is neither ERROR nor IGNORED, and
  then the union holds the rule's Result.
\<close>

definition fails_run :: "FormatResult \<Rightarrow> bool" where
  "fails_run r =
     (status r = ERROR \<or>
      (status r \<noteq> IGNORED \<and> level (ruleInfo r) = ''error'' \<and>
       (case lintResult r of Some res \<Rightarrow> \<not> passed res | None \<Rightarrow> True)))"

definition lint_passed :: "FormatResult list \<Rightarrow> bool" where
  "lint_passed result = (case find fails_run result of None \<Rightarrow> True | Some r \<Rightarrow> False)"

section \<open>determineTargets\<close>

text \<open>
  \<^verbatim>\<open>Promise.all\<close> over promises that are settled: the values in order, or the fault
  of a rejected one. Here it is the fault of the first rejected promise in the order
  of the array.
\<close>

fun promise_all :: "('e + 'a) list \<Rightarrow> 'e + 'a list" where
  "promise_all [] = Inr []"
| "promise_all (Inl e # ps) = Inl e"
| "promise_all (Inr v # ps) = (case promise_all ps of Inl e \<Rightarrow> Inl e | Inr vs \<Rightarrow> Inr (v # vs))"

text \<open>Lines 357 to 362: what \<^verbatim>\<open>determineTargets\<close> does for one entry of the axiom configuration.\<close>

definition runAxiom ::
  "(string \<rightharpoonup> 'fs axiom_plugin) \<Rightarrow> 'fs \<Rightarrow> string \<times> string \<Rightarrow> string + (string \<times> Result)" where
  "runAxiom allAxioms fs entry =
     (case entry of (axiomId, axiomName) \<Rightarrow>
        (case allAxioms axiomId of
           None \<Rightarrow>
             Inr (axiomName,
                  \<lparr>message = ''invalid axiom name '' @ axiomId, targets = [], passed = False\<rparr>)
         | Some axiomFunction \<Rightarrow>
             (case axiomFunction fs of
                Inl e \<Rightarrow> Inl e
              | Inr res \<Rightarrow> Inr (axiomName, res))))"

text \<open>
  Lines 353 to 365. The axiom configuration is given by its entries
  (identifier, display name). The object returned is given by its entries:
  \<^verbatim>\<open>a[k] = v\<close> replaces the value of a key that is there and appends a new key.
\<close>

definition determineTargets ::
  "(string \<rightharpoonup> 'fs axiom_plugin) \<Rightarrow> (string \<times> string) list \<Rightarrow> 'fs \<Rightarrow> string + (string \<times> Result) list" where
  "determineTargets allAxioms axiomconfig fs =
     (case promise_all (map (runAxiom allAxioms fs) axiomconfig) of
        Inl e \<Rightarrow> Inl e
      | Inr ruleresults \<Rightarrow> Inr (foldl (\<lambda>a (k, v). AList.update k v a) [] ruleresults))"

section \<open>parseConfig\<close>

text \<open>
  The two dialects of a configuration. \<^verbatim>\<open>config.version === 2\<close> is the constructor
  \<open>Version2\<close>; every mapping is given by its entries in the order of
  \<^verbatim>\<open>Object.entries\<close>. A rule of the version-2 dialect has a level, a where list, a
  rule object, and optionally a fix object and policy data; a rule of the legacy
  dialect is the array \<^verbatim>\<open>[level, options]\<close>, whose options may be missing.
\<close>

record plugin_cfg =
  ptype :: string
  poptions :: "json option"

record rule_cfg =
  cfg_level :: string
  cfg_where :: "string list"
  cfg_rule :: plugin_cfg
  cfg_fix :: "plugin_cfg option"
  cfg_policyInfo :: "string option"
  cfg_policyUrl :: "string option"

type_synonym configray = "string \<times> json option"

datatype config =
    Version2 "(string \<times> rule_cfg) list"
  | Legacy "(string \<times> (string \<times> configray) list) list"

datatype error = TypeError string

text \<open>\<^verbatim>\<open>Array.prototype.reduce\<close> without an initial value.\<close>

fun reduce :: "('a \<Rightarrow> 'a \<Rightarrow> 'a) \<Rightarrow> 'a list \<Rightarrow> error + 'a" where
  "reduce f [] = Inl (TypeError ''Reduce of empty array with no initial value'')"
| "reduce f (x # xs) = Inr (foldl f x xs)"

text \<open>Lines 411 to 421: the descriptor of one version-2 rule.\<close>

definition modern_rule :: "string \<times> rule_cfg \<Rightarrow> RuleInfo" where
  "modern_rule entry =
     (case entry of (nm, cfg) \<Rightarrow>
        new_RuleInfo nm (cfg_level cfg) (cfg_where cfg) (ptype (cfg_rule cfg))
          (poptions (cfg_rule cfg))
          (case cfg_fix cfg of None \<Rightarrow> None | Some f \<Rightarrow> Some (ptype f))
          (case cfg_fix cfg of None \<Rightarrow> None | Some f \<Rightarrow> poptions f)
          (cfg_policyInfo cfg) (cfg_policyUrl cfg))"

text \<open>
  Lines 430 to 439: the descriptor of one legacy rule of the group \<open>wh\<close>.
  \<^verbatim>\<open>const [name, type] = rulename.split(':')\<close> takes the first two pieces;
  \<^verbatim>\<open>type || name\<close> and \<^verbatim>\<open>configray[1] || {}\<close> take the right side when the left
  is undefined or falsy. The array of pieces is never empty (\<open>split_nonempty\<close> below).
\<close>

definition legacy_rule :: "string \<Rightarrow> string \<times> configray \<Rightarrow> RuleInfo" where
  "legacy_rule wh entry =
     (case entry of (rulename, configray) \<Rightarrow>
        (let parts = split (CHR '':'') rulename;
             nm = (case parts of [] \<Rightarrow> [] | n # rest \<Rightarrow> n);
             ty = (case parts of n # t # rest \<Rightarrow> Some t | _ \<Rightarrow> None)
         in new_RuleInfo nm (fst configray)
              (if wh = ''all'' then [] else [wh])
              (case ty of None \<Rightarrow> nm | Some t \<Rightarrow> if t = [] then nm else t)
              (case snd configray of
                 None \<Rightarrow> Some (JObj [])
               | Some opts \<Rightarrow> if truthy opts then Some opts else Some (JObj []))
              None None None None))"

text \<open>Lines 427 to 440: the descriptors of one legacy group.\<close>

definition legacy_group :: "string \<times> (string \<times> configray) list \<Rightarrow> RuleInfo list" where
  "legacy_group g = (case g of (wh, rules) \<Rightarrow> map (legacy_rule wh) rules)"

text \<open>Lines 405 to 442.\<close>

fun parseConfig :: "config \<Rightarrow> error + RuleInfo list" where
  "parseConfig (Version2 rules) = Inr (map modern_rule rules)"
| "parseConfig (Legacy rules) = reduce (\<lambda>a c. a @ c) (map legacy_group rules)"

section \<open>Example inputs\<close>

text \<open>
  A small installation on which the statements below are evaluated: one rule plugin
  that reports a failure on four targets and one that throws, one fix plugin that
  succeeds and one that throws, and the axiom plugin \<^verbatim>\<open>linguist\<close> reporting the
  single language file \<^verbatim>\<open>a.js\<close>. The file system is the unit value.
\<close>

definition ex_failing :: Result where
  "ex_failing =
     \<lparr>message = ''missing'',
      targets = [\<lparr>path = Some ''LICENSE'', tpassed = False\<rparr>,
                 \<lparr>path = Some ''README.md'', tpassed = True\<rparr>,
                 \<lparr>path = None, tpassed = False\<rparr>,
                 \<lparr>path = Some [], tpassed = False\<rparr>],
      passed = False\<rparr>"

definition ex_fixed :: Result where
  "ex_fixed =
     \<lparr>message = ''created'', targets = [\<lparr>path = Some ''LICENSE'', tpassed = True\<rparr>],
      passed = True\<rparr>"

definition ex_allRules :: "string \<rightharpoonup> unit rule_plugin" where
  "ex_allRules =
     [''file-existence'' \<mapsto> (\<lambda>fs opts. Inr ex_failing),
      ''broken'' \<mapsto> (\<lambda>fs opts. Inl ''ENOENT'')]"

definition ex_allFixes :: "string \<rightharpoonup> unit fix_plugin" where
  "ex_allFixes =
     [''file-create'' \<mapsto> (\<lambda>fs opts ts dry. Inr ex_fixed),
      ''broken-fix'' \<mapsto> (\<lambda>fs opts ts dry. Inl ''EACCES'')]"

definition ex_rule :: "string \<Rightarrow> string list \<Rightarrow> string \<Rightarrow> string option \<Rightarrow> RuleInfo" where
  "ex_rule lvl wh ty ft =
     new_RuleInfo ''license-file-exists'' lvl wh ty (Some (JObj [])) ft None None None"

definition ex_languages :: Result where
  "ex_languages =
     \<lparr>message = [], targets = [\<lparr>path = Some ''a.js'', tpassed = True\<rparr>], passed = True\<rparr>"

definition ex_allAxioms :: "string \<rightharpoonup> unit axiom_plugin" where
  "ex_allAxioms =
     [''linguist'' \<mapsto> (\<lambda>fs. Inr ex_languages),
      ''licensee'' \<mapsto> (\<lambda>fs. Inl ''Licensee not installed'')]"

section \<open>Facts about the building blocks\<close>

lemma foldl_append: "foldl (\<lambda>a c. a @ c) acc xs = acc @ concat xs"
  by (induction xs arbitrary: acc) simp_all

text \<open>The tokens one entry of the axiom results contributes.\<close>

lemma targetArray_concat:
  "targetArray (TMap m) =
     concat (map (\<lambda>e. (fst e @ ''=*'') # map (\<lambda>t. fst e @ ''='' @ interpolate (path t)) (targets (snd e)))
              (filter (\<lambda>e. passed (snd e)) m))"
  by (simp add: foldl_append case_prod_unfold comp_def)

lemma targetArray_nonempty_tokens: "[] \<notin> set (targetArray tg)"
proof (cases tg)
  case (TBool b)
  then show ?thesis by simp
next
  case (TMap m)
  then show ?thesis
    by (auto simp: targetArray_concat simp del: targetArray.simps)
qed

text \<open>
  No token is the empty string, so the negated \<^verbatim>\<open>find\<close> of line 308 is plain
  absence from the token array.
\<close>

lemma ignoreReasons_filter:
  assumes "[] \<notin> set tarr"
  shows "ignoreReasons tarr r = filter (\<lambda>c. c \<notin> set tarr) (rwhere r)"
proof -
  have "(case find (\<lambda>tar. c = tar) tarr of None \<Rightarrow> True | Some found \<Rightarrow> found = [])
          = (c \<notin> set tarr)" for c
  proof (cases "find (\<lambda>tar. c = tar) tarr")
    case None
    then have "c \<notin> set tarr"
      by (auto simp: find_None_iff)
    with None show ?thesis by simp
  next
    case (Some found)
    then have "found \<in> set tarr" "c = found"
      by (auto simp: find_Some_iff)
    with assms have "found \<noteq> []" "c \<in> set tarr"
      by auto
    with Some show ?thesis by simp
  qed
  then show ?thesis
    by (simp add: ignoreReasons_def)
qed

lemma ignoreReasons_targetArray:
  "ignoreReasons (targetArray tg) r = filter (\<lambda>c. c \<notin> set (targetArray tg)) (rwhere r)"
  by (rule ignoreReasons_filter) (rule targetArray_nonempty_tokens)

lemma ignoreReasons_empty_iff:
  "(ignoreReasons (targetArray tg) r = []) = (set (rwhere r) \<subseteq> set (targetArray tg))"
  by (auto simp: ignoreReasons_targetArray filter_empty_conv)

lemma join_quoted:
  "xs \<noteq> [] \<Longrightarrow>
     [dq] @ join ([dq] @ '', '' @ [dq]) xs @ [dq] = join '', '' (map (\<lambda>c. [dq] @ c @ [dq]) xs)"
  by (induction xs rule: induct_list012) simp_all

subsection \<open>The branches of runRule\<close>

lemma runRule_off:
  "level r = ''off'' \<Longrightarrow>
     runRule allRules allFixes tgts fs dryRun r =
       (CreateIgnored r (''ignored because level is '' @ [dq] @ ''off'' @ [dq]), [])"
  by (simp add: runRule_def)

lemma runRule_unsatisfied:
  "level r \<noteq> ''off'' \<Longrightarrow> not_boolean tgts \<Longrightarrow> ignoreReasons (targetArray tgts) r \<noteq> [] \<Longrightarrow>
     runRule allRules allFixes tgts fs dryRun r =
       (CreateIgnored r
          (''ignored due to unsatisfied condition(s): '' @ [dq] @
           join ([dq] @ '', '' @ [dq]) (ignoreReasons (targetArray tgts) r) @ [dq]), [])"
  by (simp add: runRule_def)

lemma runRule_unregistered:
  "level r \<noteq> ''off'' \<Longrightarrow> \<not> not_boolean tgts \<or> ignoreReasons (targetArray tgts) r = [] \<Longrightarrow>
   allRules (ruleType r) = None \<Longrightarrow>
     runRule allRules allFixes tgts fs dryRun r =
       (CreateError r (ruleType r @ '' is not a valid rule''), [])"
  by (auto simp add: runRule_def)

lemma runRule_threw:
  "level r \<noteq> ''off'' \<Longrightarrow> \<not> not_boolean tgts \<or> ignoreReasons (targetArray tgts) r = [] \<Longrightarrow>
   allRules (ruleType r) = Some ruleFunc \<Longrightarrow> ruleFunc fs (ruleConfig r) = Inl e \<Longrightarrow>
     runRule allRules allFixes tgts fs dryRun r =
       (CreateError r (ruleType r @ '' threw an error: '' @ e),
        [RuleCall (ruleType r) fs (ruleConfig r)])"
  by (auto simp add: runRule_def)

lemma runRule_lint_only:
  "level r \<noteq> ''off'' \<Longrightarrow> \<not> not_boolean tgts \<or> ignoreReasons (targetArray tgts) r = [] \<Longrightarrow>
   allRules (ruleType r) = Some ruleFunc \<Longrightarrow> ruleFunc fs (ruleConfig r) = Inr result \<Longrightarrow>
   no_fixType (fixType r) \<or> passed result \<Longrightarrow>
     runRule allRules allFixes tgts fs dryRun r =
       (CreateLintOnly r result, [RuleCall (ruleType r) fs (ruleConfig r)])"
  by (auto simp add: runRule_def)

lemma runRule_fix:
  "level r \<noteq> ''off'' \<Longrightarrow> \<not> not_boolean tgts \<or> ignoreReasons (targetArray tgts) r = [] \<Longrightarrow>
   allRules (ruleType r) = Some ruleFunc \<Longrightarrow> ruleFunc fs (ruleConfig r) = Inr result \<Longrightarrow>
   \<not> passed result \<Longrightarrow> fixType r = Some ft \<Longrightarrow> ft \<noteq> [] \<Longrightarrow>
     runRule allRules allFixes tgts fs dryRun r =
       (case allFixes ft of
          None \<Rightarrow>
            (CreateError r (ft @ '' is not a valid fix''), [RuleCall (ruleType r) fs (ruleConfig r)])
        | Some fixFunc \<Rightarrow>
            (case fixFunc fs (fixConfig r) (fixTargets result) dryRun of
               Inl e \<Rightarrow> CreateError r (ft @ '' threw an error: '' @ e)
             | Inr fixresult \<Rightarrow> CreateLintAndFix r result fixresult,
             [RuleCall (ruleType r) fs (ruleConfig r),
              FixCall ft fs (fixConfig r) (fixTargets result) dryRun]))"
  by (auto simp add: runRule_def split: option.splits sum.splits)

lemma runRule_status_IGNORED:
  "(status (fst (runRule allRules allFixes tgts fs dryRun r)) = IGNORED) =
     (level r = ''off'' \<or> (not_boolean tgts \<and> ignoreReasons (targetArray tgts) r \<noteq> []))"
  by (auto simp add: runRule_def split: option.splits sum.splits)

lemma runRuleset_append:
  "runRuleset allRules allFixes (pre @ r # post) tgts fs dryRun =
     runRuleset allRules allFixes pre tgts fs dryRun @
     fst (runRule allRules allFixes tgts fs dryRun r) #
     runRuleset allRules allFixes post tgts fs dryRun"
  by (simp add: runRuleset_def)

subsection \<open>The verdict\<close>

lemma fails_run_iff:
  "fails_run r =
     (status r = ERROR \<or>
      (status r \<noteq> IGNORED \<and> level (ruleInfo r) = ''error'' \<and>
       (\<exists>res. lintResult r = Some res \<and> passed res = False)))"
  by (cases r) (simp_all add: fails_run_def)

lemma lint_passed_iff_no_failure: "lint_passed result = (\<forall>r \<in> set result. \<not> fails_run r)"
proof -
  have "lint_passed result = (find fails_run result = None)"
    by (simp add: lint_passed_def split: option.splits)
  then show ?thesis
    by (auto simp: find_None_iff)
qed

section \<open>The overall verdict\<close>

text \<open>
  C1. For every list of FormatResults, the verdict \<open>passed\<close> of \<^verbatim>\<open>lint\<close> is false
  exactly when some FormatResult has status ERROR, or is not IGNORED, has the level
  "error" and carries a lint Result whose \<open>passed\<close> is false. Entries that are ignored,
  and entries of level "warning" that are not errors, never change the verdict: the
  verdict of the list without them is the verdict of the list.
\<close>

theorem lint_verdict:
  "((lint_passed result = False) =
      (\<exists>r \<in> set result.
         status r = ERROR \<or>
         (status r \<noteq> IGNORED \<and> level (ruleInfo r) = ''error'' \<and>
          (\<exists>res. lintResult r = Some res \<and> passed res = False)))) \<and>
   lint_passed
     (filter (\<lambda>r. \<not> (status r = IGNORED \<or>
                      (status r \<noteq> ERROR \<and> level (ruleInfo r) = ''warning''))) result) =
     lint_passed result"
proof
  show "(lint_passed result = False) =
     (\<exists>r \<in> set result.
        status r = ERROR \<or>
        (status r \<noteq> IGNORED \<and> level (ruleInfo r) = ''error'' \<and>
         (\<exists>res. lintResult r = Some res \<and> passed res = False)))"
    unfolding lint_passed_iff_no_failure fails_run_iff by blast
  have "\<not> fails_run r"
    if "status r = IGNORED \<or> (status r \<noteq> ERROR \<and> level (ruleInfo r) = ''warning'')" for r
    using that by (auto simp: fails_run_iff)
  then show "lint_passed
         (filter (\<lambda>r. \<not> (status r = IGNORED \<or>
                          (status r \<noteq> ERROR \<and> level (ruleInfo r) = ''warning''))) result) =
       lint_passed result"
    by (auto simp: lint_passed_iff_no_failure)
qed

text \<open>
  A failing rule of level "warning" and an ignored rule leave the verdict true; the
  same failure at level "error" makes it false.
\<close>

theorem lint_verdict_witness:
  "lint_passed
     [CreateLintOnly (ex_rule ''warning'' [] ''file-existence'' None) ex_failing,
      CreateIgnored (ex_rule ''off'' [] ''file-existence'' None) ''ignored''] \<and>
   \<not> lint_passed
     [CreateLintOnly (ex_rule ''warning'' [] ''file-existence'' None) ex_failing,
      CreateLintOnly (ex_rule ''error'' [] ''file-existence'' None) ex_failing]"
  using
    lint_verdict [of "[CreateLintOnly (ex_rule ''warning'' [] ''file-existence'' None) ex_failing,
      CreateIgnored (ex_rule ''off'' [] ''file-existence'' None) ''ignored'']"]
    lint_verdict [of "[CreateLintOnly (ex_rule ''warning'' [] ''file-existence'' None) ex_failing,
      CreateLintOnly (ex_rule ''error'' [] ''file-existence'' None) ex_failing]"]
  by (simp add: ex_rule_def new_RuleInfo_def ex_failing_def)

section \<open>Condition matching\<close>

text \<open>
  C2. For every axiom-result map given to \<^verbatim>\<open>runRuleset\<close>, the tokens used for
  condition matching are, for each AxiomResult whose \<open>passed\<close> is true, the token
  "name=*" and one token "name=path" for every target, whatever the target's own
  \<open>passed\<close>; an AxiomResult whose \<open>passed\<close> is false contributes nothing. The axiom
  named "language" that reports the one target \<^verbatim>\<open>{path: "a.js", passed: true}\<close> yields
  exactly "language=*" and "language=a.js". With these tokens every rule that is not
  switched off and has the where list ["language=a.js"] is not ignored, and every rule
  that is not switched off and has the where list ["language=b.js"] is ignored, the
  reason lists "language=b.js" and no plugin runs. The rules of the example are rules
  that take part in condition matching: a rule of level "off" is ignored for its
  level, whatever its where list, so the first kind of rule is ignored exactly when
  its level is "off" and the second kind always.
\<close>

theorem token_set:
  "set (targetArray (TMap m)) =
     {tok. \<exists>axiomId res. (axiomId, res) \<in> set m \<and> passed res \<and>
             (tok = axiomId @ ''=*'' \<or>
              (\<exists>t \<in> set (targets res). tok = axiomId @ ''='' @ interpolate (path t)))} \<and>
   targetArray
     (TMap [(''language'',
             \<lparr>message = msg, targets = [\<lparr>path = Some ''a.js'', tpassed = True\<rparr>], passed = True\<rparr>)]) =
     [''language=*'', ''language=a.js''] \<and>
   (\<forall>r. rwhere r = [''language=a.js''] \<longrightarrow>
      (status (fst (runRule allRules allFixes
         (TMap [(''language'',
                 \<lparr>message = msg, targets = [\<lparr>path = Some ''a.js'', tpassed = True\<rparr>], passed = True\<rparr>)])
         fs dryRun r)) = IGNORED) = (level r = ''off'')) \<and>
   (\<forall>r. rwhere r = [''language=b.js''] \<longrightarrow>
      status (fst (runRule allRules allFixes
         (TMap [(''language'',
                 \<lparr>message = msg, targets = [\<lparr>path = Some ''a.js'', tpassed = True\<rparr>], passed = True\<rparr>)])
         fs dryRun r)) = IGNORED \<and>
      (level r \<noteq> ''off'' \<longrightarrow>
         runRule allRules allFixes
           (TMap [(''language'',
                   \<lparr>message = msg, targets = [\<lparr>path = Some ''a.js'', tpassed = True\<rparr>], passed = True\<rparr>)])
           fs dryRun r =
         (CreateIgnored r
            (''ignored due to unsatisfied condition(s): '' @ [dq] @ ''language=b.js'' @ [dq]), [])))"
proof -
  let ?tg = "TMap [(''language'',
                \<lparr>message = msg, targets = [\<lparr>path = Some ''a.js'', tpassed = True\<rparr>], passed = True\<rparr>)]"
  have tokens: "targetArray ?tg = [''language=*'', ''language=a.js'']"
    by simp
  have "set (targetArray (TMap m)) =
     {tok. \<exists>axiomId res. (axiomId, res) \<in> set m \<and> passed res \<and>
             (tok = axiomId @ ''=*'' \<or>
              (\<exists>t \<in> set (targets res). tok = axiomId @ ''='' @ interpolate (path t)))}"
    unfolding targetArray_concat by fastforce
  moreover have "(status (fst (runRule allRules allFixes ?tg fs dryRun r)) = IGNORED) = (level r = ''off'')"
    if "rwhere r = [''language=a.js'']" for r
  proof -
    have "ignoreReasons (targetArray ?tg) r = []"
      unfolding ignoreReasons_targetArray using that by simp
    then show ?thesis
      by (simp only: runRule_status_IGNORED) simp
  qed
  moreover have "status (fst (runRule allRules allFixes ?tg fs dryRun r)) = IGNORED \<and>
      (level r \<noteq> ''off'' \<longrightarrow>
         runRule allRules allFixes ?tg fs dryRun r =
         (CreateIgnored r
            (''ignored due to unsatisfied condition(s): '' @ [dq] @ ''language=b.js'' @ [dq]), []))"
    if "rwhere r = [''language=b.js'']" for r
  proof -
    have reasons: "ignoreReasons (targetArray ?tg) r = [''language=b.js'']"
      unfolding ignoreReasons_targetArray using that by simp
    then have "status (fst (runRule allRules allFixes ?tg fs dryRun r)) = IGNORED"
      by (simp only: runRule_status_IGNORED) simp
    moreover have "runRule allRules allFixes ?tg fs dryRun r =
         (CreateIgnored r
            (''ignored due to unsatisfied condition(s): '' @ [dq] @ ''language=b.js'' @ [dq]), [])"
      if "level r \<noteq> ''off''"
      using runRule_unsatisfied [of r ?tg allRules allFixes fs dryRun] that reasons by simp
    ultimately show ?thesis by blast
  qed
  ultimately show ?thesis
    using tokens by blast
qed

text \<open>
  The tokens of a map with a passing and a failing axiom, a rule of level "error" on
  a.js, which is linted, and the same rule on b.js, which is ignored.
\<close>

theorem token_set_witness:
  "set (targetArray
     (TMap [(''language'', ex_languages),
            (''license'', \<lparr>message = ''invalid axiom name licensee'', targets = [], passed = False\<rparr>)])) =
     {''language=*'', ''language=a.js''} \<and>
   rwhere (ex_rule ''error'' [''language=a.js''] ''file-existence'' None) = [''language=a.js''] \<and>
   status (fst (runRule ex_allRules ex_allFixes (TMap [(''language'', ex_languages)]) () False
                  (ex_rule ''error'' [''language=a.js''] ''file-existence'' None))) = LINT_ONLY \<and>
   rwhere (ex_rule ''error'' [''language=b.js''] ''file-existence'' None) = [''language=b.js''] \<and>
   level (ex_rule ''error'' [''language=b.js''] ''file-existence'' None) = ''error'' \<and>
   runRule ex_allRules ex_allFixes (TMap [(''language'', ex_languages)]) () False
     (ex_rule ''error'' [''language=b.js''] ''file-existence'' None) =
     (CreateIgnored (ex_rule ''error'' [''language=b.js''] ''file-existence'' None)
        (''ignored due to unsatisfied condition(s): '' @ [dq] @ ''language=b.js'' @ [dq]), [])"
proof -
  have a: "rwhere (ex_rule ''error'' [''language=a.js''] ''file-existence'' None) = [''language=a.js'']"
    and b: "rwhere (ex_rule ''error'' [''language=b.js''] ''file-existence'' None) = [''language=b.js'']"
    and l: "level (ex_rule ''error'' [''language=b.js''] ''file-existence'' None) = ''error''"
    by (simp_all add: ex_rule_def new_RuleInfo_def)
  have lint: "status (fst (runRule ex_allRules ex_allFixes (TMap [(''language'', ex_languages)]) () False
                  (ex_rule ''error'' [''language=a.js''] ''file-existence'' None))) = LINT_ONLY"
    by (simp add: runRule_def ignoreReasons_def ex_rule_def new_RuleInfo_def ex_languages_def
        ex_allRules_def)
  note t = token_set [of "[(''language'', ex_languages),
            (''license'', \<lparr>message = ''invalid axiom name licensee'', targets = [], passed = False\<rparr>)]"
      "[]" ex_allRules ex_allFixes "()" False]
  from t have "set (targetArray
     (TMap [(''language'', ex_languages),
            (''license'', \<lparr>message = ''invalid axiom name licensee'', targets = [], passed = False\<rparr>)])) =
     {''language=*'', ''language=a.js''}"
    by (simp add: ex_languages_def)
  moreover from t b l have "runRule ex_allRules ex_allFixes (TMap [(''language'', ex_languages)]) () False
     (ex_rule ''error'' [''language=b.js''] ''file-existence'' None) =
     (CreateIgnored (ex_rule ''error'' [''language=b.js''] ''file-existence'' None)
        (''ignored due to unsatisfied condition(s): '' @ [dq] @ ''language=b.js'' @ [dq]), [])"
    by (simp add: ex_languages_def)
  ultimately show ?thesis
    using a b l lint by simp
qed

text \<open>
  C3. For every rule whose level is not "off" and whose where list holds a condition
  that is not among the tokens of the axiom-result map, \<^verbatim>\<open>runRuleset\<close> yields an
  IGNORED FormatResult for it. The reason lists exactly the unsatisfied conditions, in
  the order of the where list, each in double quotes and joined by a comma and a
  space, whether or not other conditions of the list are satisfied. No plugin is
  invoked for the rule.
\<close>

theorem unsatisfied_conditions_ignored:
  assumes "level r \<noteq> ''off''"
    and "\<exists>c \<in> set (rwhere r). c \<notin> set (targetArray (TMap m))"
  shows "runRule allRules allFixes (TMap m) fs dryRun r =
     (CreateIgnored r
        (''ignored due to unsatisfied condition(s): '' @
         join '', '' (map (\<lambda>c. [dq] @ c @ [dq])
                        (filter (\<lambda>c. c \<notin> set (targetArray (TMap m))) (rwhere r)))), [])"
proof -
  let ?unsat = "filter (\<lambda>c. c \<notin> set (targetArray (TMap m))) (rwhere r)"
  have reasons: "ignoreReasons (targetArray (TMap m)) r = ?unsat"
    by (rule ignoreReasons_targetArray)
  from assms(2) have nonempty: "?unsat \<noteq> []"
    by (simp add: filter_empty_conv)
  have "runRule allRules allFixes (TMap m) fs dryRun r =
     (CreateIgnored r
        (''ignored due to unsatisfied condition(s): '' @
         ([dq] @ join ([dq] @ '', '' @ [dq]) ?unsat @ [dq])), [])"
    using runRule_unsatisfied [of r "TMap m" allRules allFixes fs dryRun] assms(1) nonempty
    unfolding reasons by simp
  then show ?thesis
    unfolding join_quoted [OF nonempty] .
qed

text \<open>
  A rule of level "error" with one satisfied and two unsatisfied conditions: the
  reason lists the two, and the plugin, which is registered, is not run.
\<close>

theorem unsatisfied_conditions_ignored_witness:
  "level (ex_rule ''error'' [''language=a.js'', ''language=b.js'', ''license=*''] ''file-existence'' None)
     \<noteq> ''off'' \<and>
   runRule ex_allRules ex_allFixes (TMap [(''language'', ex_languages)]) () False
     (ex_rule ''error'' [''language=a.js'', ''language=b.js'', ''license=*''] ''file-existence'' None) =
     (CreateIgnored
        (ex_rule ''error'' [''language=a.js'', ''language=b.js'', ''license=*''] ''file-existence'' None)
        (''ignored due to unsatisfied condition(s): '' @
         [dq] @ ''language=b.js'' @ [dq] @ '', '' @ [dq] @ ''license=*'' @ [dq]), [])"
proof -
  let ?r = "ex_rule ''error'' [''language=a.js'', ''language=b.js'', ''license=*''] ''file-existence'' None"
  have l: "level ?r \<noteq> ''off''"
    by (simp add: ex_rule_def new_RuleInfo_def)
  have c: "\<exists>c \<in> set (rwhere ?r). c \<notin> set (targetArray (TMap [(''language'', ex_languages)]))"
    by (simp add: ex_rule_def new_RuleInfo_def ex_languages_def)
  show ?thesis
    using l unsatisfied_conditions_ignored [OF l c, of ex_allRules ex_allFixes "()" False]
    by (simp add: ex_rule_def new_RuleInfo_def ex_languages_def)
qed

section \<open>Rules that are switched off\<close>

text \<open>
  C4, as the claim states it, fails on the reason: the claim gives the reason as
  \<^verbatim>\<open>ignored because level is off\<close>, and line 305 writes the word off in double quotes.
  The rule below has the level "off"; the reason of its FormatResult is not the
  claim's string.
\<close>

theorem level_off_reason_counterexample:
  "level (ex_rule ''off'' [] ''file-existence'' (Some ''file-create'')) = ''off'' \<and>
   runMessage (fst (runRule ex_allRules ex_allFixes (TBool True) () False
                      (ex_rule ''off'' [] ''file-existence'' (Some ''file-create''))))
     \<noteq> Some ''ignored because level is off''"
  by (simp add: runRule_def ex_rule_def new_RuleInfo_def dq_def)

text \<open>
  C4, amended. For every rule whose level is "off", \<^verbatim>\<open>runRuleset\<close> yields an IGNORED
  FormatResult whose reason is \<^verbatim>\<open>ignored because level is "off"\<close>, the word off in
  double quotes, and neither the rule plugin nor a fix plugin is invoked, whatever the
  where conditions, the axiom results and the registries are.
\<close>

theorem level_off_ignored:
  assumes "level r = ''off''"
  shows "runRule allRules allFixes tgts fs dryRun r =
     (CreateIgnored r (''ignored because level is '' @ [dq] @ ''off'' @ [dq]), [])"
  using assms by (rule runRule_off)

text \<open>
  A rule of level "off" whose condition is unsatisfied and whose rule and fix plugins
  are registered.
\<close>

theorem level_off_ignored_witness:
  "level (ex_rule ''off'' [''language=b.js''] ''file-existence'' (Some ''file-create'')) = ''off'' \<and>
   runRule ex_allRules ex_allFixes (TMap [(''language'', ex_languages)]) () False
     (ex_rule ''off'' [''language=b.js''] ''file-existence'' (Some ''file-create'')) =
     (CreateIgnored (ex_rule ''off'' [''language=b.js''] ''file-existence'' (Some ''file-create''))
        (''ignored because level is '' @ [dq] @ ''off'' @ [dq]), [])"
proof -
  have l: "level (ex_rule ''off'' [''language=b.js''] ''file-existence'' (Some ''file-create'')) = ''off''"
    by (simp add: ex_rule_def new_RuleInfo_def)
  show ?thesis
    using l level_off_ignored [OF l, of ex_allRules ex_allFixes "TMap [(''language'', ex_languages)]" "()" False]
    by simp
qed

section \<open>The boolean in place of the axiom results\<close>

text \<open>
  C9. For every rule list, file system and dryRun flag, \<^verbatim>\<open>runRuleset\<close> with the
  boolean false in place of the axiom results gives the same FormatResults and invokes
  the same plugins as with the boolean true. With either boolean the token array is
  empty and is not consulted: a rule is IGNORED exactly when its level is "off", and
  its outcome is the one it has under any axiom-result map that satisfies all of its
  where conditions.
\<close>

theorem boolean_targets:
  "runRuleset allRules allFixes ruleset (TBool False) fs dryRun =
     runRuleset allRules allFixes ruleset (TBool True) fs dryRun \<and>
   runRuleset_calls allRules allFixes ruleset (TBool False) fs dryRun =
     runRuleset_calls allRules allFixes ruleset (TBool True) fs dryRun \<and>
   targetArray (TBool b) = [] \<and>
   (\<forall>r \<in> set ruleset.
      (status (fst (runRule allRules allFixes (TBool b) fs dryRun r)) = IGNORED) = (level r = ''off'') \<and>
      (\<forall>m. set (rwhere r) \<subseteq> set (targetArray (TMap m)) \<longrightarrow>
         runRule allRules allFixes (TBool b) fs dryRun r =
         runRule allRules allFixes (TMap m) fs dryRun r))"
proof -
  have same: "runRule allRules allFixes (TBool False) fs dryRun r =
      runRule allRules allFixes (TBool True) fs dryRun r" for r
    by (simp add: runRule_def)
  have satisfied: "runRule allRules allFixes (TBool b) fs dryRun r =
         runRule allRules allFixes (TMap m) fs dryRun r"
    if "set (rwhere r) \<subseteq> set (targetArray (TMap m))" for r m
  proof -
    from that have "ignoreReasons (targetArray (TMap m)) r = []"
      by (simp only: ignoreReasons_empty_iff)
    then show ?thesis
      by (simp add: runRule_def)
  qed
  have "(status (fst (runRule allRules allFixes (TBool b) fs dryRun r)) = IGNORED) = (level r = ''off'')"
    for r
    by (simp only: runRule_status_IGNORED) simp
  with same satisfied show ?thesis
    by (simp add: runRuleset_def runRuleset_calls_def)
qed

text \<open>
  Two rules whose condition no axiom result satisfies: with false, as with true, the
  first is linted and fixed and the second, of level "off", is ignored.
\<close>

theorem boolean_targets_witness:
  "runRuleset ex_allRules ex_allFixes
     [ex_rule ''error'' [''language=b.js''] ''file-existence'' (Some ''file-create''),
      ex_rule ''off'' [''language=b.js''] ''file-existence'' None] (TBool False) () True =
   runRuleset ex_allRules ex_allFixes
     [ex_rule ''error'' [''language=b.js''] ''file-existence'' (Some ''file-create''),
      ex_rule ''off'' [''language=b.js''] ''file-existence'' None] (TBool True) () True \<and>
   map status (runRuleset ex_allRules ex_allFixes
     [ex_rule ''error'' [''language=b.js''] ''file-existence'' (Some ''file-create''),
      ex_rule ''off'' [''language=b.js''] ''file-existence'' None] (TBool False) () True) =
     [LINT_AND_FIX, IGNORED]"
proof -
  have "map status (runRuleset ex_allRules ex_allFixes
     [ex_rule ''error'' [''language=b.js''] ''file-existence'' (Some ''file-create''),
      ex_rule ''off'' [''language=b.js''] ''file-existence'' None] (TBool False) () True) =
     [LINT_AND_FIX, IGNORED]"
    by (simp add: runRuleset_def runRule_def ex_rule_def new_RuleInfo_def ex_allRules_def
        ex_allFixes_def ex_failing_def)
  then show ?thesis
    using boolean_targets [of ex_allRules ex_allFixes
        "[ex_rule ''error'' [''language=b.js''] ''file-existence'' (Some ''file-create''),
          ex_rule ''off'' [''language=b.js''] ''file-existence'' None]" "()" True False]
    by simp
qed

section \<open>Faults of rule plugins\<close>

text \<open>
  C5, as the claim states it, fails for a rule that is ignored: the claim promises an
  ERROR for every rule whose rule type is not registered, and lines 305 to 310 return
  IGNORED before the registry is looked at. The rule below has the level "off" and a
  rule type that is not registered; its FormatResult is IGNORED.
\<close>

theorem unregistered_rule_counterexample:
  "ex_allRules (ruleType (ex_rule ''off'' [] ''no-such-rule'' None)) = None \<and>
   status (fst (runRule ex_allRules ex_allFixes (TBool True) () False
                  (ex_rule ''off'' [] ''no-such-rule'' None))) = IGNORED"
  by (simp add: runRule_def ex_rule_def new_RuleInfo_def ex_allRules_def)

text \<open>
  C5, amended. Take a rule that is not ignored: its level is not "off" and, when the
  axiom results are a map, every condition of its where list is among the tokens. If
  its rule type is not registered, its FormatResult is ERROR with the message
  "type is not a valid rule" and no plugin is invoked. If its plugin throws a fault,
  its FormatResult is ERROR with the message "type threw an error: " followed by the
  fault's message, and only the rule plugin was invoked. In both cases the rules before
  and after it in the batch yield the FormatResults they yield on their own, and the
  ERROR stands in the rule's own slot.
\<close>

theorem rule_faults_contained:
  assumes "level r \<noteq> ''off''"
    and "not_boolean tgts \<longrightarrow> set (rwhere r) \<subseteq> set (targetArray tgts)"
  shows
    "(allRules (ruleType r) = None \<longrightarrow>
        runRule allRules allFixes tgts fs dryRun r =
          (CreateError r (ruleType r @ '' is not a valid rule''), []) \<and>
        runRuleset allRules allFixes (pre @ r # post) tgts fs dryRun =
          runRuleset allRules allFixes pre tgts fs dryRun @
          CreateError r (ruleType r @ '' is not a valid rule'') #
          runRuleset allRules allFixes post tgts fs dryRun) \<and>
     (\<forall>ruleFunc e. allRules (ruleType r) = Some ruleFunc \<and> ruleFunc fs (ruleConfig r) = Inl e \<longrightarrow>
        runRule allRules allFixes tgts fs dryRun r =
          (CreateError r (ruleType r @ '' threw an error: '' @ e),
           [RuleCall (ruleType r) fs (ruleConfig r)]) \<and>
        runRuleset allRules allFixes (pre @ r # post) tgts fs dryRun =
          runRuleset allRules allFixes pre tgts fs dryRun @
          CreateError r (ruleType r @ '' threw an error: '' @ e) #
          runRuleset allRules allFixes post tgts fs dryRun)"
proof -
  from assms(2) have gate: "\<not> not_boolean tgts \<or> ignoreReasons (targetArray tgts) r = []"
    by (simp add: ignoreReasons_empty_iff)
  have "runRule allRules allFixes tgts fs dryRun r =
          (CreateError r (ruleType r @ '' is not a valid rule''), [])"
    if "allRules (ruleType r) = None"
    using assms(1) gate that by (rule runRule_unregistered)
  moreover have "runRule allRules allFixes tgts fs dryRun r =
          (CreateError r (ruleType r @ '' threw an error: '' @ e),
           [RuleCall (ruleType r) fs (ruleConfig r)])"
    if "allRules (ruleType r) = Some ruleFunc" "ruleFunc fs (ruleConfig r) = Inl e" for ruleFunc e
    using assms(1) gate that by (rule runRule_threw)
  ultimately show ?thesis
    by (simp add: runRuleset_append)
qed

text \<open>
  A batch of three rules of level "error" under the language tokens: the first is
  linted, the second names a plugin that is not registered, the third a plugin that
  throws "ENOENT".
\<close>

theorem rule_faults_contained_witness:
  "level (ex_rule ''error'' [''language=*''] ''no-such-rule'' None) \<noteq> ''off'' \<and>
   ex_allRules (ruleType (ex_rule ''error'' [''language=*''] ''no-such-rule'' None)) = None \<and>
   runRule ex_allRules ex_allFixes (TMap [(''language'', ex_languages)]) () False
     (ex_rule ''error'' [''language=*''] ''no-such-rule'' None) =
     (CreateError (ex_rule ''error'' [''language=*''] ''no-such-rule'' None)
        ''no-such-rule is not a valid rule'', []) \<and>
   runRule ex_allRules ex_allFixes (TMap [(''language'', ex_languages)]) () False
     (ex_rule ''error'' [''language=*''] ''broken'' None) =
     (CreateError (ex_rule ''error'' [''language=*''] ''broken'' None)
        ''broken threw an error: ENOENT'',
      [RuleCall ''broken'' () (Some (JObj []))]) \<and>
   runRuleset ex_allRules ex_allFixes
     [ex_rule ''error'' [] ''file-existence'' None,
      ex_rule ''error'' [''language=*''] ''no-such-rule'' None,
      ex_rule ''error'' [''language=*''] ''broken'' None]
     (TMap [(''language'', ex_languages)]) () False =
     [CreateLintOnly (ex_rule ''error'' [] ''file-existence'' None) ex_failing,
      CreateError (ex_rule ''error'' [''language=*''] ''no-such-rule'' None)
        ''no-such-rule is not a valid rule'',
      CreateError (ex_rule ''error'' [''language=*''] ''broken'' None)
        ''broken threw an error: ENOENT'']"
proof -
  let ?tg = "TMap [(''language'', ex_languages)]"
  let ?u = "ex_rule ''error'' [''language=*''] ''no-such-rule'' None"
  let ?b = "ex_rule ''error'' [''language=*''] ''broken'' None"
  have lu: "level ?u \<noteq> ''off''" and lb: "level ?b \<noteq> ''off''"
    by (simp_all add: ex_rule_def new_RuleInfo_def)
  have gu: "not_boolean ?tg \<longrightarrow> set (rwhere ?u) \<subseteq> set (targetArray ?tg)"
    and gb: "not_boolean ?tg \<longrightarrow> set (rwhere ?b) \<subseteq> set (targetArray ?tg)"
    by (simp_all add: ex_rule_def new_RuleInfo_def ex_languages_def)
  have unreg: "ex_allRules (ruleType ?u) = None"
    by (simp add: ex_rule_def new_RuleInfo_def ex_allRules_def)
  have threw: "ex_allRules (ruleType ?b) = Some (\<lambda>fs opts. Inl ''ENOENT'')"
    by (simp add: ex_rule_def new_RuleInfo_def ex_allRules_def)
  have first: "runRuleset ex_allRules ex_allFixes [ex_rule ''error'' [] ''file-existence'' None] ?tg () False =
      [CreateLintOnly (ex_rule ''error'' [] ''file-existence'' None) ex_failing]"
    by (simp add: runRuleset_def runRule_def ignoreReasons_def ex_rule_def new_RuleInfo_def
        ex_allRules_def)
  have last: "runRuleset ex_allRules ex_allFixes [?b] ?tg () False =
      [CreateError ?b ''broken threw an error: ENOENT'']"
    using rule_faults_contained [OF lb gb, of ex_allRules ex_allFixes "()" False "[]" "[]"] threw
    by (simp add: runRuleset_def ex_rule_def new_RuleInfo_def)
  have one: "runRule ex_allRules ex_allFixes ?tg () False ?b =
     (CreateError ?b ''broken threw an error: ENOENT'', [RuleCall ''broken'' () (Some (JObj []))])"
    using rule_faults_contained [OF lb gb, of ex_allRules ex_allFixes "()" False "[]" "[]"] threw
    by (simp add: ex_rule_def new_RuleInfo_def)
  show ?thesis
    using lu unreg one first last
      rule_faults_contained [OF lu gu, of ex_allRules ex_allFixes "()" False
        "[ex_rule ''error'' [] ''file-existence'' None]" "[?b]"]
    by (simp add: ex_rule_def new_RuleInfo_def)
qed

section \<open>Fixes\<close>

text \<open>The paths handed to the fix of a failed rule: those of the failed targets that have one.\<close>

lemma fixTargets_failed:
  "\<not> passed result \<Longrightarrow>
     fixTargets result =
       map (\<lambda>t. the (path t))
         (filter (\<lambda>t. \<not> tpassed t \<and> path t \<noteq> None \<and> path t \<noteq> Some []) (targets result))"
proof -
  have same_filter:
    "(\<lambda>t. \<not> tpassed t \<and> (case path t of None \<Rightarrow> False | Some p \<Rightarrow> p \<noteq> [])) =
     (\<lambda>t. \<not> tpassed t \<and> path t \<noteq> None \<and> path t \<noteq> Some [])"
    by (auto split: option.splits)
  show "\<not> passed result \<Longrightarrow> ?thesis"
    unfolding fixTargets_def same_filter by simp
qed

text \<open>
  C6, as the claim states it, fails when the fix plugin throws: the claim promises
  LINT_AND_FIX whenever the fix type is registered, and lines 335 to 337 turn a fault
  of the fix plugin into an ERROR. The rule below fails its lint, and its fix plugin is
  registered and throws "EACCES".
\<close>

theorem fix_fault_counterexample:
  "ex_allRules ''file-existence'' = Some (\<lambda>fs opts. Inr ex_failing) \<and>
   \<not> passed ex_failing \<and>
   fixType (ex_rule ''error'' [] ''file-existence'' (Some ''broken-fix'')) = Some ''broken-fix'' \<and>
   ex_allFixes ''broken-fix'' \<noteq> None \<and>
   fst (runRule ex_allRules ex_allFixes (TBool True) () False
          (ex_rule ''error'' [] ''file-existence'' (Some ''broken-fix''))) =
     CreateError (ex_rule ''error'' [] ''file-existence'' (Some ''broken-fix''))
       ''broken-fix threw an error: EACCES''"
  by (simp add: runRule_def ex_rule_def new_RuleInfo_def ex_allRules_def ex_allFixes_def
      ex_failing_def)

text \<open>
  C6, amended. Take a rule that is not ignored and whose rule plugin returned the
  Result \<open>result\<close>. If \<open>result\<close> did not pass and the rule has the fix type \<open>ft\<close>: when
  \<open>ft\<close> is not registered, the rule's own FormatResult is ERROR with the message
  "ft is not a valid fix"; otherwise the fix plugin is invoked once, after the rule
  plugin, with the file system, the fix configuration, the paths of the targets of
  \<open>result\<close> that did not pass and have a non-empty path, in their order, and the dryRun
  flag; if the fix plugin returns a Result the FormatResult is LINT_AND_FIX with
  \<open>result\<close> and the fix Result, and if it throws the FormatResult is ERROR with the
  message "ft threw an error: " followed by the fault's message. If the rule has no fix
  type or \<open>result\<close> passed, the FormatResult is LINT_ONLY with \<open>result\<close> and only the
  rule plugin was invoked.
\<close>

theorem fix_dispatch:
  assumes "level r \<noteq> ''off''"
    and "not_boolean tgts \<longrightarrow> set (rwhere r) \<subseteq> set (targetArray tgts)"
    and "allRules (ruleType r) = Some ruleFunc"
    and "ruleFunc fs (ruleConfig r) = Inr result"
  shows
    "(\<not> passed result \<and> fixType r = Some ft \<and> ft \<noteq> [] \<longrightarrow>
        (allFixes ft = None \<longrightarrow>
           runRule allRules allFixes tgts fs dryRun r =
             (CreateError r (ft @ '' is not a valid fix''),
              [RuleCall (ruleType r) fs (ruleConfig r)])) \<and>
        (\<forall>fixFunc. allFixes ft = Some fixFunc \<longrightarrow>
           snd (runRule allRules allFixes tgts fs dryRun r) =
             [RuleCall (ruleType r) fs (ruleConfig r),
              FixCall ft fs (fixConfig r)
                (map (\<lambda>t. the (path t))
                   (filter (\<lambda>t. \<not> tpassed t \<and> path t \<noteq> None \<and> path t \<noteq> Some [])
                      (targets result)))
                dryRun] \<and>
           (\<forall>fixresult.
              fixFunc fs (fixConfig r)
                (map (\<lambda>t. the (path t))
                   (filter (\<lambda>t. \<not> tpassed t \<and> path t \<noteq> None \<and> path t \<noteq> Some [])
                      (targets result)))
                dryRun = Inr fixresult \<longrightarrow>
              fst (runRule allRules allFixes tgts fs dryRun r) = CreateLintAndFix r result fixresult) \<and>
           (\<forall>e.
              fixFunc fs (fixConfig r)
                (map (\<lambda>t. the (path t))
                   (filter (\<lambda>t. \<not> tpassed t \<and> path t \<noteq> None \<and> path t \<noteq> Some [])
                      (targets result)))
                dryRun = Inl e \<longrightarrow>
              fst (runRule allRules allFixes tgts fs dryRun r) =
                CreateError r (ft @ '' threw an error: '' @ e)))) \<and>
     (fixType r = None \<or> fixType r = Some [] \<or> passed result \<longrightarrow>
        runRule allRules allFixes tgts fs dryRun r =
          (CreateLintOnly r result, [RuleCall (ruleType r) fs (ruleConfig r)]))"
proof -
  from assms(2) have gate: "\<not> not_boolean tgts \<or> ignoreReasons (targetArray tgts) r = []"
    by (simp add: ignoreReasons_empty_iff)
  have lint_only: "runRule allRules allFixes tgts fs dryRun r =
          (CreateLintOnly r result, [RuleCall (ruleType r) fs (ruleConfig r)])"
    if "fixType r = None \<or> fixType r = Some [] \<or> passed result"
  proof -
    from that have "no_fixType (fixType r) \<or> passed result"
      by auto
    with assms(1) gate assms(3,4) show ?thesis
      by (rule runRule_lint_only)
  qed
  have fixing: "runRule allRules allFixes tgts fs dryRun r =
       (case allFixes ft of
          None \<Rightarrow>
            (CreateError r (ft @ '' is not a valid fix''), [RuleCall (ruleType r) fs (ruleConfig r)])
        | Some fixFunc \<Rightarrow>
            (case fixFunc fs (fixConfig r)
                    (map (\<lambda>t. the (path t))
                       (filter (\<lambda>t. \<not> tpassed t \<and> path t \<noteq> None \<and> path t \<noteq> Some [])
                          (targets result))) dryRun of
               Inl e \<Rightarrow> CreateError r (ft @ '' threw an error: '' @ e)
             | Inr fixresult \<Rightarrow> CreateLintAndFix r result fixresult,
             [RuleCall (ruleType r) fs (ruleConfig r),
              FixCall ft fs (fixConfig r)
                (map (\<lambda>t. the (path t))
                   (filter (\<lambda>t. \<not> tpassed t \<and> path t \<noteq> None \<and> path t \<noteq> Some [])
                      (targets result))) dryRun]))"
    if "\<not> passed result" "fixType r = Some ft" "ft \<noteq> []"
  proof -
    have "runRule allRules allFixes tgts fs dryRun r =
       (case allFixes ft of
          None \<Rightarrow>
            (CreateError r (ft @ '' is not a valid fix''), [RuleCall (ruleType r) fs (ruleConfig r)])
        | Some fixFunc \<Rightarrow>
            (case fixFunc fs (fixConfig r) (fixTargets result) dryRun of
               Inl e \<Rightarrow> CreateError r (ft @ '' threw an error: '' @ e)
             | Inr fixresult \<Rightarrow> CreateLintAndFix r result fixresult,
             [RuleCall (ruleType r) fs (ruleConfig r),
              FixCall ft fs (fixConfig r) (fixTargets result) dryRun]))"
      using assms(1) gate assms(3,4) that by (rule runRule_fix)
    then show ?thesis
      by (simp only: fixTargets_failed [OF that(1)])
  qed
  show ?thesis
  proof (intro conjI impI allI)
    assume "fixType r = None \<or> fixType r = Some [] \<or> passed result"
    then show "runRule allRules allFixes tgts fs dryRun r =
          (CreateLintOnly r result, [RuleCall (ruleType r) fs (ruleConfig r)])"
      by (rule lint_only)
  qed (auto simp: fixing)
qed

text \<open>
  A failing rule of level "error" with the fix "file-create", run dry: the fix gets
  the one path LICENSE, since the other targets passed or have no path, and the
  FormatResult holds both Results. The same rule without a fix is LINT_ONLY.
\<close>

theorem fix_dispatch_witness:
  "level (ex_rule ''error'' [] ''file-existence'' (Some ''file-create'')) \<noteq> ''off'' \<and>
   \<not> passed ex_failing \<and>
   runRule ex_allRules ex_allFixes (TBool True) () True
     (ex_rule ''error'' [] ''file-existence'' (Some ''file-create'')) =
     (CreateLintAndFix (ex_rule ''error'' [] ''file-existence'' (Some ''file-create''))
        ex_failing ex_fixed,
      [RuleCall ''file-existence'' () (Some (JObj [])),
       FixCall ''file-create'' () None [''LICENSE''] True]) \<and>
   runRule ex_allRules ex_allFixes (TBool True) () True
     (ex_rule ''error'' [] ''file-existence'' None) =
     (CreateLintOnly (ex_rule ''error'' [] ''file-existence'' None) ex_failing,
      [RuleCall ''file-existence'' () (Some (JObj []))])"
proof -
  let ?f = "ex_rule ''error'' [] ''file-existence'' (Some ''file-create'')"
  let ?n = "ex_rule ''error'' [] ''file-existence'' None"
  have lf: "level ?f \<noteq> ''off''" and ln: "level ?n \<noteq> ''off''"
    by (simp_all add: ex_rule_def new_RuleInfo_def)
  have gf: "not_boolean (TBool True) \<longrightarrow> set (rwhere ?f) \<subseteq> set (targetArray (TBool True))"
    and gn: "not_boolean (TBool True) \<longrightarrow> set (rwhere ?n) \<subseteq> set (targetArray (TBool True))"
    by simp_all
  have pf: "ex_allRules (ruleType ?f) = Some (\<lambda>fs opts. Inr ex_failing)"
    and pn: "ex_allRules (ruleType ?n) = Some (\<lambda>fs opts. Inr ex_failing)"
    by (simp_all add: ex_rule_def new_RuleInfo_def ex_allRules_def)
  have failed: "\<not> passed ex_failing"
    by (simp add: ex_failing_def)
  have fixing: "ex_allFixes ''file-create'' = Some (\<lambda>fs opts ts dry. Inr ex_fixed)"
    by (simp add: ex_allFixes_def)
  have with_fix: "runRule ex_allRules ex_allFixes (TBool True) () True ?f =
     (CreateLintAndFix ?f ex_failing ex_fixed,
      [RuleCall ''file-existence'' () (Some (JObj [])),
       FixCall ''file-create'' () None [''LICENSE''] True])"
    using
      fix_dispatch [where r = ?f and tgts = "TBool True" and allRules = ex_allRules
        and ruleFunc = "\<lambda>fs opts. Inr ex_failing" and fs = "()" and result = ex_failing
        and ft = "''file-create''" and allFixes = ex_allFixes and dryRun = True, OF lf gf pf]
      failed fixing
    by (simp add: ex_rule_def new_RuleInfo_def ex_failing_def prod_eq_iff)
  have without: "runRule ex_allRules ex_allFixes (TBool True) () True ?n =
     (CreateLintOnly ?n ex_failing, [RuleCall ''file-existence'' () (Some (JObj []))])"
    using
      fix_dispatch [where r = ?n and tgts = "TBool True" and allRules = ex_allRules
        and ruleFunc = "\<lambda>fs opts. Inr ex_failing" and fs = "()" and result = ex_failing
        and ft = "''file-create''" and allFixes = ex_allFixes and dryRun = True, OF ln gn pn]
    by (simp add: ex_rule_def new_RuleInfo_def)
  from lf failed with_fix without show ?thesis
    by simp
qed

section \<open>Axiom resolution\<close>

lemma promise_all_Inr: "(promise_all ps = Inr vs) = (ps = map Inr vs)"
proof (induction ps arbitrary: vs)
  case Nil
  then show ?case by auto
next
  case (Cons p ps)
  show ?case
  proof (cases p)
    case (Inl e)
    then show ?thesis by (cases vs) auto
  next
    case (Inr v)
    have "(promise_all (p # ps) = Inr vs) = (\<exists>vs'. vs = v # vs' \<and> promise_all ps = Inr vs')"
      by (auto simp: Inr split: sum.splits)
    also have "\<dots> = (\<exists>vs'. vs = v # vs' \<and> ps = map Inr vs')"
      by (simp add: Cons.IH)
    also have "\<dots> = (p # ps = map Inr vs)"
      by (cases vs) (auto simp: Inr)
    finally show ?thesis .
  qed
qed

lemma promise_all_Inl: "promise_all ps = Inl e \<Longrightarrow> Inl e \<in> set ps"
proof (induction ps)
  case Nil
  then show ?case by simp
next
  case (Cons p ps)
  then show ?case
    by (cases p) (auto split: sum.splits)
qed

lemma promise_all_rejects: "Inl e \<in> set ps \<Longrightarrow> \<exists>e'. promise_all ps = Inl e'"
proof (induction ps)
  case Nil
  then show ?case by simp
next
  case (Cons p ps)
  then show ?case
    by (cases p) (auto split: sum.splits)
qed

text \<open>The object built by \<^verbatim>\<open>a[k] = v\<close>, entry by entry: the last value written under a key stands.\<close>

lemma map_of_foldl_update:
  "map_of (foldl (\<lambda>a (k, v). AList.update k v a) acc kvs) = map_of acc ++ map_of (rev kvs)"
proof (induction kvs arbitrary: acc)
  case Nil
  then show ?case by simp
next
  case (Cons kv kvs)
  obtain k v where kv: "kv = (k, v)"
    by (cases kv)
  have "foldl (\<lambda>a (k, v). AList.update k v a) acc (kv # kvs) =
          foldl (\<lambda>a (k, v). AList.update k v a) (AList.update k v acc) kvs"
    by (simp add: kv)
  then have "map_of (foldl (\<lambda>a (k, v). AList.update k v a) acc (kv # kvs)) =
          map_of (AList.update k v acc) ++ map_of (rev kvs)"
    by (simp only: Cons.IH)
  also have "\<dots> = (map_of acc)(k \<mapsto> v) ++ map_of (rev kvs)"
    by (simp only: update_conv')
  also have "\<dots> = map_of acc ++ map_of (rev (kv # kvs))"
    by (simp add: kv)
  finally show ?case .
qed

lemma map_of_last_write:
  assumes "k \<notin> fst ` set post"
  shows "map_of (foldl (\<lambda>a (k, v). AList.update k v a) [] (pre @ (k, v) # post)) k = Some v"
proof -
  from assms have "map_of (rev post) k = None"
    by (simp add: map_of_eq_None_iff)
  then show ?thesis
    unfolding map_of_foldl_update by (simp add: map_add_def)
qed

lemma runAxiom_unregistered:
  "allAxioms axiomId = None \<Longrightarrow>
     runAxiom allAxioms fs (axiomId, axiomName) =
       Inr (axiomName, \<lparr>message = ''invalid axiom name '' @ axiomId, targets = [], passed = False\<rparr>)"
  by (simp add: runAxiom_def)

lemma runAxiom_registered:
  "allAxioms axiomId = Some f \<Longrightarrow>
     runAxiom allAxioms fs (axiomId, axiomName) =
       (case f fs of Inl e \<Rightarrow> Inl e | Inr res \<Rightarrow> Inr (axiomName, res))"
  by (simp add: runAxiom_def)

lemma runAxiom_name: "runAxiom allAxioms fs (axiomId, axiomName) = Inr kv \<Longrightarrow> fst kv = axiomName"
  by (auto simp: runAxiom_def split: option.splits sum.splits)

lemma runAxiom_Inl:
  "(runAxiom allAxioms fs entry = Inl e) =
     (\<exists>f. allAxioms (fst entry) = Some f \<and> f fs = Inl e)"
  by (cases entry) (auto simp: runAxiom_def split: option.splits sum.splits)

text \<open>An entry whose display name no later entry uses keeps its Result in the object.\<close>

lemma runAxiom_names:
  "map (runAxiom allAxioms fs) entries = map Inr rs \<Longrightarrow> map fst rs = map snd entries"
proof (induction entries arbitrary: rs)
  case Nil
  then show ?case by simp
next
  case (Cons entry entries)
  then obtain kv rs' where rs: "rs = kv # rs'" and kv: "runAxiom allAxioms fs entry = Inr kv"
    and rest: "map (runAxiom allAxioms fs) entries = map Inr rs'"
    by (cases rs) auto
  from kv have "fst kv = snd entry"
    using runAxiom_name [of allAxioms fs "fst entry" "snd entry" kv] by simp
  with Cons.IH [OF rest] rs show ?case by simp
qed

lemma determineTargets_entry:
  assumes "determineTargets allAxioms (pre @ (axiomId, axiomName) # post) fs = Inr m"
    and "axiomName \<notin> snd ` set post"
    and "runAxiom allAxioms fs (axiomId, axiomName) = Inr (axiomName, res)"
  shows "map_of m axiomName = Some res"
proof -
  from assms(1) obtain rs where
    all: "promise_all (map (runAxiom allAxioms fs) (pre @ (axiomId, axiomName) # post)) = Inr rs"
    and m: "m = foldl (\<lambda>a (k, v). AList.update k v a) [] rs"
    by (auto simp: determineTargets_def split: sum.splits)
  from all have "map (runAxiom allAxioms fs) pre @
      runAxiom allAxioms fs (axiomId, axiomName) # map (runAxiom allAxioms fs) post = map Inr rs"
    by (simp add: promise_all_Inr)
  then obtain rpre r rpost where rs: "rs = rpre @ r # rpost"
    and r: "runAxiom allAxioms fs (axiomId, axiomName) = Inr r"
    and rpost: "map (runAxiom allAxioms fs) post = map Inr rpost"
    by (auto simp: append_eq_map_conv Cons_eq_map_conv)
  from r assms(3) have r': "r = (axiomName, res)"
    by simp
  from rpost have "map fst rpost = map snd post"
    by (rule runAxiom_names)
  then have "fst ` set rpost = snd ` set post"
    by (metis set_map)
  with assms(2) have "axiomName \<notin> fst ` set rpost"
    by simp
  then show ?thesis
    unfolding m rs r' by (rule map_of_last_write)
qed

lemma determineTargets_completes:
  "(\<exists>m. determineTargets allAxioms axiomconfig fs = Inr m) =
     (\<forall>entry \<in> set axiomconfig. \<forall>f. allAxioms (fst entry) = Some f \<longrightarrow> (\<exists>res. f fs = Inr res))"
proof
  assume "\<exists>m. determineTargets allAxioms axiomconfig fs = Inr m"
  then obtain rs where "promise_all (map (runAxiom allAxioms fs) axiomconfig) = Inr rs"
    by (auto simp: determineTargets_def split: sum.splits)
  then have eq: "map (runAxiom allAxioms fs) axiomconfig = map Inr rs"
    by (simp only: promise_all_Inr)
  show "\<forall>entry \<in> set axiomconfig. \<forall>f. allAxioms (fst entry) = Some f \<longrightarrow> (\<exists>res. f fs = Inr res)"
  proof (intro ballI allI impI)
    fix entry f
    assume entry: "entry \<in> set axiomconfig" and f: "allAxioms (fst entry) = Some f"
    from entry eq have "runAxiom allAxioms fs entry \<in> set (map Inr rs)"
      by (metis image_eqI set_map)
    then have "\<not> (\<exists>e. runAxiom allAxioms fs entry = Inl e)"
      by auto
    with f show "\<exists>res. f fs = Inr res"
      by (cases "f fs") (auto simp: runAxiom_Inl)
  qed
next
  assume ok: "\<forall>entry \<in> set axiomconfig. \<forall>f. allAxioms (fst entry) = Some f \<longrightarrow> (\<exists>res. f fs = Inr res)"
  have "\<not> (\<exists>e. promise_all (map (runAxiom allAxioms fs) axiomconfig) = Inl e)"
  proof
    assume "\<exists>e. promise_all (map (runAxiom allAxioms fs) axiomconfig) = Inl e"
    then obtain e where "promise_all (map (runAxiom allAxioms fs) axiomconfig) = Inl e" ..
    then have "Inl e \<in> set (map (runAxiom allAxioms fs) axiomconfig)"
      by (rule promise_all_Inl)
    then obtain entry where "entry \<in> set axiomconfig" "Inl e = runAxiom allAxioms fs entry"
      by auto
    then have "entry \<in> set axiomconfig" "runAxiom allAxioms fs entry = Inl e"
      by simp_all
    with ok show False
      by (auto simp: runAxiom_Inl)
  qed
  then show "\<exists>m. determineTargets allAxioms axiomconfig fs = Inr m"
    by (cases "promise_all (map (runAxiom allAxioms fs) axiomconfig)")
       (auto simp: determineTargets_def)
qed

lemma determineTargets_aborts:
  assumes "(axiomId, axiomName) \<in> set axiomconfig" and "allAxioms axiomId = Some f" and "f fs = Inl e"
  shows "\<exists>e'. determineTargets allAxioms axiomconfig fs = Inl e'"
proof -
  from assms(2,3) have "runAxiom allAxioms fs (axiomId, axiomName) = Inl e"
    by (simp add: runAxiom_Inl)
  with assms(1) have "Inl e \<in> set (map (runAxiom allAxioms fs) axiomconfig)"
    by (metis image_eqI set_map)
  then have "\<exists>e'. promise_all (map (runAxiom allAxioms fs) axiomconfig) = Inl e'"
    by (rule promise_all_rejects)
  then obtain e' where "promise_all (map (runAxiom allAxioms fs) axiomconfig) = Inl e'" ..
  then show ?thesis
    by (auto simp: determineTargets_def)
qed

lemma determineTargets_fault:
  assumes "determineTargets allAxioms axiomconfig fs = Inl e"
  shows "\<exists>entry \<in> set axiomconfig. \<exists>f. allAxioms (fst entry) = Some f \<and> f fs = Inl e"
proof -
  from assms have "promise_all (map (runAxiom allAxioms fs) axiomconfig) = Inl e"
    by (auto simp: determineTargets_def split: sum.splits)
  then have "Inl e \<in> set (map (runAxiom allAxioms fs) axiomconfig)"
    by (rule promise_all_Inl)
  then obtain entry where "entry \<in> set axiomconfig" "Inl e = runAxiom allAxioms fs entry"
    by auto
  then have "entry \<in> set axiomconfig" "runAxiom allAxioms fs entry = Inl e"
    by simp_all
  then show ?thesis
    by (auto simp: runAxiom_Inl)
qed

text \<open>
  C8, as the claim states it, fails when a later entry of the axiom configuration
  reports under the same display name: line 364 writes the Results into one object
  keyed by display name, so the later Result replaces the earlier one. Below, the
  identifier \<^verbatim>\<open>no-such-axiom\<close> is not registered and \<^verbatim>\<open>linguist\<close> is; both report as
  "language", and the resolved object holds only the Result of \<^verbatim>\<open>linguist\<close>.
\<close>

theorem invalid_axiom_counterexample:
  "ex_allAxioms ''no-such-axiom'' = None \<and>
   determineTargets ex_allAxioms [(''no-such-axiom'', ''language''), (''linguist'', ''language'')] () =
     Inr [(''language'', ex_languages)] \<and>
   message ex_languages \<noteq> ''invalid axiom name no-such-axiom''"
  by (simp add: determineTargets_def runAxiom_def ex_allAxioms_def ex_languages_def)

text \<open>
  C8, amended. Resolution returns an object exactly when no registered axiom plugin
  of the configuration throws; an identifier that is not registered never makes it
  fail. In the object returned, an entry whose identifier is not registered, and whose
  display name no later entry uses, has under its display name the Result with the
  message "invalid axiom name " followed by the identifier, \<open>passed\<close> false and no
  targets; an entry whose plugin returned a Result, and whose display name no later
  entry uses, has that Result. If the plugin of some entry throws, nothing catches
  the fault: the resolution as a whole fails with the fault of a plugin of the
  configuration, and no object is returned.
\<close>

theorem axiom_faults:
  "(\<forall>pre axiomId axiomName post m.
      axiomconfig = pre @ (axiomId, axiomName) # post \<and> allAxioms axiomId = None \<and>
      axiomName \<notin> snd ` set post \<and> determineTargets allAxioms axiomconfig fs = Inr m \<longrightarrow>
      map_of m axiomName =
        Some \<lparr>message = ''invalid axiom name '' @ axiomId, targets = [], passed = False\<rparr>) \<and>
   (\<forall>pre axiomId axiomName post m f res.
      axiomconfig = pre @ (axiomId, axiomName) # post \<and> allAxioms axiomId = Some f \<and>
      f fs = Inr res \<and>
      axiomName \<notin> snd ` set post \<and> determineTargets allAxioms axiomconfig fs = Inr m \<longrightarrow>
      map_of m axiomName = Some res) \<and>
   ((\<exists>m. determineTargets allAxioms axiomconfig fs = Inr m) =
      (\<forall>entry \<in> set axiomconfig. \<forall>f. allAxioms (fst entry) = Some f \<longrightarrow> (\<exists>res. f fs = Inr res))) \<and>
   (\<forall>axiomId axiomName f e.
      (axiomId, axiomName) \<in> set axiomconfig \<and> allAxioms axiomId = Some f \<and> f fs = Inl e \<longrightarrow>
      (\<exists>e'. determineTargets allAxioms axiomconfig fs = Inl e')) \<and>
   (\<forall>e. determineTargets allAxioms axiomconfig fs = Inl e \<longrightarrow>
      (\<exists>entry \<in> set axiomconfig. \<exists>f. allAxioms (fst entry) = Some f \<and> f fs = Inl e))"
proof (intro conjI allI impI)
  fix pre axiomId axiomName post m
  assume a: "axiomconfig = pre @ (axiomId, axiomName) # post \<and> allAxioms axiomId = None \<and>
      axiomName \<notin> snd ` set post \<and> determineTargets allAxioms axiomconfig fs = Inr m"
  then have cfg: "axiomconfig = pre @ (axiomId, axiomName) # post"
    and unreg: "allAxioms axiomId = None"
    and last: "axiomName \<notin> snd ` set post"
    and resolved: "determineTargets allAxioms axiomconfig fs = Inr m"
    by blast+
  from unreg have "runAxiom allAxioms fs (axiomId, axiomName) =
      Inr (axiomName, \<lparr>message = ''invalid axiom name '' @ axiomId, targets = [], passed = False\<rparr>)"
    by (rule runAxiom_unregistered)
  with resolved [unfolded cfg] last show "map_of m axiomName =
        Some \<lparr>message = ''invalid axiom name '' @ axiomId, targets = [], passed = False\<rparr>"
    by (rule determineTargets_entry)
next
  fix pre axiomId axiomName post m f res
  assume a: "axiomconfig = pre @ (axiomId, axiomName) # post \<and> allAxioms axiomId = Some f \<and>
      f fs = Inr res \<and>
      axiomName \<notin> snd ` set post \<and> determineTargets allAxioms axiomconfig fs = Inr m"
  then have cfg: "axiomconfig = pre @ (axiomId, axiomName) # post"
    and reg: "allAxioms axiomId = Some f"
    and returned: "f fs = Inr res"
    and last: "axiomName \<notin> snd ` set post"
    and resolved: "determineTargets allAxioms axiomconfig fs = Inr m"
    by blast+
  from reg returned have "runAxiom allAxioms fs (axiomId, axiomName) = Inr (axiomName, res)"
    by (simp add: runAxiom_registered)
  with resolved [unfolded cfg] last show "map_of m axiomName = Some res"
    by (rule determineTargets_entry)
next
  show "(\<exists>m. determineTargets allAxioms axiomconfig fs = Inr m) =
      (\<forall>entry \<in> set axiomconfig. \<forall>f. allAxioms (fst entry) = Some f \<longrightarrow> (\<exists>res. f fs = Inr res))"
    by (rule determineTargets_completes)
next
  fix axiomId axiomName f e
  assume "(axiomId, axiomName) \<in> set axiomconfig \<and> allAxioms axiomId = Some f \<and> f fs = Inl e"
  then show "\<exists>e'. determineTargets allAxioms axiomconfig fs = Inl e'"
    using determineTargets_aborts [of axiomId axiomName axiomconfig allAxioms f fs e] by simp
next
  fix e
  assume "determineTargets allAxioms axiomconfig fs = Inl e"
  then show "\<exists>entry \<in> set axiomconfig. \<exists>f. allAxioms (fst entry) = Some f \<and> f fs = Inl e"
    by (rule determineTargets_fault)
qed

text \<open>
  An identifier that is not registered beside \<^verbatim>\<open>linguist\<close>: both Results are in the
  object. With \<^verbatim>\<open>licensee\<close>, whose plugin throws, in the same configuration there is
  no object, only the fault.
\<close>

theorem axiom_faults_witness:
  "ex_allAxioms ''no-such-axiom'' = None \<and>
   determineTargets ex_allAxioms [(''no-such-axiom'', ''license''), (''linguist'', ''language'')] () =
     Inr [(''license'', \<lparr>message = ''invalid axiom name no-such-axiom'', targets = [], passed = False\<rparr>),
          (''language'', ex_languages)] \<and>
   map_of [(''license'', \<lparr>message = ''invalid axiom name no-such-axiom'', targets = [], passed = False\<rparr>),
           (''language'', ex_languages)] ''license'' =
     Some \<lparr>message = ''invalid axiom name no-such-axiom'', targets = [], passed = False\<rparr> \<and>
   determineTargets ex_allAxioms
     [(''no-such-axiom'', ''license''), (''licensee'', ''licenses''), (''linguist'', ''language'')] () =
     Inl ''Licensee not installed''"
proof -
  have unreg: "ex_allAxioms ''no-such-axiom'' = None"
    by (simp add: ex_allAxioms_def)
  have resolved: "determineTargets ex_allAxioms
      [(''no-such-axiom'', ''license''), (''linguist'', ''language'')] () =
     Inr [(''license'', \<lparr>message = ''invalid axiom name no-such-axiom'', targets = [], passed = False\<rparr>),
          (''language'', ex_languages)]"
    by (simp add: determineTargets_def runAxiom_def ex_allAxioms_def)
  have aborted: "determineTargets ex_allAxioms
     [(''no-such-axiom'', ''license''), (''licensee'', ''licenses''), (''linguist'', ''language'')] () =
     Inl ''Licensee not installed''"
    by (simp add: determineTargets_def runAxiom_def ex_allAxioms_def)
  have "map_of [(''license'', \<lparr>message = ''invalid axiom name no-such-axiom'', targets = [], passed = False\<rparr>),
           (''language'', ex_languages)] ''license'' =
     Some \<lparr>message = ''invalid axiom name no-such-axiom'', targets = [], passed = False\<rparr>"
    using unreg resolved
      axiom_faults [of "[(''no-such-axiom'', ''license''), (''linguist'', ''language'')]"
        ex_allAxioms "()"]
    by simp
  with unreg resolved aborted show ?thesis
    by simp
qed

section \<open>Normalization of the configuration\<close>

lemma parseConfig_Version2:
  "parseConfig (Version2 rules) = Inr (map modern_rule rules) \<and>
   length (map modern_rule rules) = length rules \<and>
   map name (map modern_rule rules) = map fst rules"
  by (simp add: modern_rule_def new_RuleInfo_def case_prod_unfold comp_def)

lemma parseConfig_Legacy:
  "groups \<noteq> [] \<Longrightarrow> parseConfig (Legacy groups) = Inr (concat (map legacy_group groups))"
  by (cases groups) (simp_all add: foldl_append)

lemma split_no_separator: "c \<notin> set s \<Longrightarrow> split c s = [s]"
  by (induction s) auto

lemma split_first_separator:
  "c \<notin> set s \<Longrightarrow> split c (s @ c # t) = s # split c t"
  by (induction s) auto

lemma split_nonempty: "split c s \<noteq> []"
  by (induction s) (auto split: list.splits)

text \<open>
  One legacy rule: the group key "all" gives no condition and any other key gives
  itself; a key without a colon names both the rule and its type; in "name:type" the
  type stands when there is one; missing options become the empty object.
\<close>

lemma legacy_rule_fields:
  "rwhere (legacy_rule wh (rulename, lvl, opts)) = (if wh = ''all'' then [] else [wh]) \<and>
   level (legacy_rule wh (rulename, lvl, opts)) = lvl \<and>
   (CHR '':'' \<notin> set rulename \<longrightarrow>
      name (legacy_rule wh (rulename, lvl, opts)) = rulename \<and>
      ruleType (legacy_rule wh (rulename, lvl, opts)) = rulename) \<and>
   (CHR '':'' \<notin> set n \<and> CHR '':'' \<notin> set t \<and> t \<noteq> [] \<longrightarrow>
      name (legacy_rule wh (n @ '':'' @ t, lvl, opts)) = n \<and>
      ruleType (legacy_rule wh (n @ '':'' @ t, lvl, opts)) = t) \<and>
   ruleConfig (legacy_rule wh (rulename, lvl, None)) = Some (JObj []) \<and>
   fixType (legacy_rule wh (rulename, lvl, opts)) = None"
  by (simp add: legacy_rule_def new_RuleInfo_def Let_def split_no_separator split_first_separator)

text \<open>
  C7. A version-2 configuration yields one descriptor per entry of its rules mapping,
  in the order of the entries (\<open>parseConfig_Version2\<close>), and a legacy rule is read as
  the claim says (\<open>legacy_rule_fields\<close>). For a legacy configuration with at least one
  condition group the output is the concatenation of the groups' descriptors, group
  by group. For the legacy configuration without a condition group the concatenation
  is the empty list, and \<^verbatim>\<open>parseConfig\<close> throws instead: line 441 calls \<^verbatim>\<open>reduce\<close>
  without the initial value \<^verbatim>\<open>[]\<close> that the same fold has at lines 295 and 382.
\<close>

theorem legacy_concatenation_diverges:
  "parseConfig (Legacy (g # groups)) = Inr (concat (map legacy_group (g # groups))) \<and>
   concat (map legacy_group []) = [] \<and>
   parseConfig (Legacy []) = Inl (TypeError ''Reduce of empty array with no initial value'')"
  by (simp add: foldl_append)

text \<open>
  C10. The legacy configuration whose rules mapping has no condition group makes
  \<^verbatim>\<open>parseConfig\<close> throw the TypeError of a \<^verbatim>\<open>reduce\<close> over an empty array without an
  initial value; no descriptor list, empty or not, is returned. A legacy
  configuration is normalized to a descriptor list exactly when it has at least one
  condition group.
\<close>

theorem legacy_without_groups_throws:
  "parseConfig (Legacy []) = Inl (TypeError ''Reduce of empty array with no initial value'') \<and>
   ((\<exists>descriptors. parseConfig (Legacy groups) = Inr descriptors) = (groups \<noteq> []))"
  by (cases groups) simp_all

end
